theory Spec2Isabelle
  imports Main "HOL-Library.Word"
begin

section \<open>Go strings and the standard-library routines the package calls\<close>

text \<open>
  A Go string is a sequence of bytes: \<open>string\<close> (a \<open>char list\<close>) here, with
  \<open>byte_of\<close> reading one character as the \<open>uint8\<close> Go compares and subtracts.
  The package under verification calls \<open>strings.ContainsRune\<close>, \<open>strings.Contains\<close>,
  \<open>net.SplitHostPort\<close>, \<open>net.ParseIP\<close>, \<open>net.IP.String\<close>, \<open>strconv.Atoi\<close> and
  \<open>strconv.Itoa\<close>; they are transcribed from the Go standard library (1.22), branch by
  branch, so that the package's own functions can be evaluated on concrete inputs.
\<close>

definition byte_of :: "char \<Rightarrow> 8 word" where
  "byte_of c = of_char c"

definition ContainsRune :: "string \<Rightarrow> char \<Rightarrow> bool" where
  "ContainsRune s c = (c \<in> set s)"

fun IndexByte :: "string \<Rightarrow> char \<Rightarrow> nat option" where
  "IndexByte [] c = None"
| "IndexByte (x # xs) c = (if x = c then Some 0 else map_option Suc (IndexByte xs c))"

definition LastIndexByte :: "string \<Rightarrow> char \<Rightarrow> nat option" where
  "LastIndexByte s c =
     (case IndexByte (rev s) c of None \<Rightarrow> None | Some k \<Rightarrow> Some (length s - 1 - k))"

subsection \<open>strconv.Itoa and strconv.Atoi\<close>

definition digit_char :: "nat \<Rightarrow> char" where
  "digit_char d = ''0123456789abcdef'' ! d"

function formatDec :: "nat \<Rightarrow> string" where
  "formatDec n = (if n < 10 then [digit_char n] else formatDec (n div 10) @ [digit_char (n mod 10)])"
  by pat_completeness auto
termination
  by (relation "measure (\<lambda>n. n)") auto

definition Itoa :: "int \<Rightarrow> string" where
  "Itoa i = (if i < 0 then CHR ''-'' # formatDec (nat (- i)) else formatDec (nat i))"

datatype NumError = ErrSyntax | ErrRange

text \<open>The fast path of \<open>Atoi\<close>: \<open>ch -= '0'; if ch > 9 { syntax error }\<close> on bytes.\<close>

fun atoi_digits :: "string \<Rightarrow> int \<Rightarrow> int option" where
  "atoi_digits [] n = Some n"
| "atoi_digits (ch # s) n =
     (let d = byte_of ch - 48
      in if d > 9 then None else atoi_digits s (n * 10 + uint d))"

text \<open>
  \<open>ParseUint(s, 10, 64)\<close>: a character that is not a decimal digit is a syntax error;
  a value that leaves 64 bits is a range error, reported where the overflow happens.
\<close>

fun parseUint_digits :: "string \<Rightarrow> nat \<Rightarrow> NumError + nat" where
  "parseUint_digits [] n = Inr n"
| "parseUint_digits (c # s) n =
     (let d = byte_of c - 48
      in if d > 9 then Inl ErrSyntax
         else if n \<ge> 2 ^ 64 div 10 + 1 then Inl ErrRange
         else if n * 10 + unat d > 2 ^ 64 - 1 then Inl ErrRange
         else parseUint_digits s (n * 10 + unat d))"

definition ParseUint :: "string \<Rightarrow> NumError + nat" where
  "ParseUint s = (if s = [] then Inl ErrSyntax else parseUint_digits s 0)"

definition ParseInt :: "string \<Rightarrow> NumError + int" where
  "ParseInt s =
     (case s of
        [] \<Rightarrow> Inl ErrSyntax
      | c # r \<Rightarrow>
          (let neg = (c = CHR ''-'');
               s1 = (if c = CHR ''+'' \<or> c = CHR ''-'' then r else s)
           in case ParseUint s1 of
                Inl ErrSyntax \<Rightarrow> Inl ErrSyntax
              | Inl ErrRange \<Rightarrow> Inl ErrRange
              | Inr un \<Rightarrow>
                  if \<not> neg \<and> un \<ge> 2 ^ 63 then Inl ErrRange
                  else if neg \<and> un > 2 ^ 63 then Inl ErrRange
                  else Inr (if neg then - int un else int un)))"

definition Atoi :: "string \<Rightarrow> NumError + int" where
  "Atoi s =
     (case s of
        [] \<Rightarrow> ParseInt s
      | c # r \<Rightarrow>
          if length s < 19 then
            (let s1 = (if c = CHR ''-'' \<or> c = CHR ''+'' then r else s)
             in if s1 = [] then Inl ErrSyntax
                else case atoi_digits s1 0 of
                       None \<Rightarrow> Inl ErrSyntax
                     | Some n \<Rightarrow> Inr (if c = CHR ''-'' then - n else n))
          else ParseInt s)"

subsection \<open>net.SplitHostPort\<close>

datatype AddrError =
    MissingPort
  | TooManyColons
  | MissingCloseBracket
  | UnexpectedOpenBracket
  | UnexpectedCloseBracket

text \<open>
  The tail of \<open>SplitHostPort\<close>: no \<open>[\<close> from position \<open>j\<close> on, no \<open>]\<close> from position
  \<open>k\<close> on, and the port is what follows the last colon, at \<open>i\<close>.
\<close>

definition splitHostPort_tail ::
  "string \<Rightarrow> string \<Rightarrow> nat \<Rightarrow> nat \<Rightarrow> nat \<Rightarrow> AddrError + (string \<times> string)" where
  "splitHostPort_tail hostport host j k i =
     (if IndexByte (drop j hostport) CHR ''['' \<noteq> None then Inl UnexpectedOpenBracket
      else if IndexByte (drop k hostport) CHR '']'' \<noteq> None then Inl UnexpectedCloseBracket
      else Inr (host, drop (i + 1) hostport))"

definition SplitHostPort :: "string \<Rightarrow> AddrError + (string \<times> string)" where
  "SplitHostPort hostport =
     (case LastIndexByte hostport CHR '':'' of
        None \<Rightarrow> Inl MissingPort
      | Some i \<Rightarrow>
          if take 1 hostport = ''['' then
            (case IndexByte hostport CHR '']'' of
               None \<Rightarrow> Inl MissingCloseBracket
             | Some e \<Rightarrow>
                 if e + 1 = length hostport then Inl MissingPort
                 else if e + 1 = i then
                   splitHostPort_tail hostport (take (e - 1) (drop 1 hostport)) 1 (e + 1) i
                 else if hostport ! (e + 1) = CHR '':'' then Inl TooManyColons
                 else Inl MissingPort)
          else
            (let host = take i hostport
             in if IndexByte host CHR '':'' \<noteq> None then Inl TooManyColons
                else splitHostPort_tail hostport host 0 0 i))"

subsection \<open>net.ParseIP\<close>

type_synonym IP = "8 word list"

definition is_digit :: "char \<Rightarrow> bool" where
  "is_digit c = (byte_of c \<ge> 48 \<and> byte_of c \<le> 57)"

fun parseIPv4Fields_loop ::
  "string \<Rightarrow> char option \<Rightarrow> nat \<Rightarrow> nat \<Rightarrow> 8 word list \<Rightarrow> 8 word list option" where
  "parseIPv4Fields_loop [] prev val digLen fields =
     (if length fields < 3 then None else Some (fields @ [of_nat val]))"
| "parseIPv4Fields_loop (c # s) prev val digLen fields =
     (if is_digit c then
        (if digLen = 1 \<and> val = 0 then None
         else let val' = val * 10 + unat (byte_of c - 48)
              in if val' > 255 then None
                 else parseIPv4Fields_loop s (Some c) val' (digLen + 1) fields)
      else if c = CHR ''.'' then
        (if prev = None \<or> s = [] \<or> prev = Some CHR ''.'' then None
         else if length fields = 3 then None
         else parseIPv4Fields_loop s (Some c) 0 0 (fields @ [of_nat val]))
      else None)"

definition parseIPv4Fields :: "string \<Rightarrow> 8 word list option" where
  "parseIPv4Fields s = parseIPv4Fields_loop s None 0 0 []"

definition hex_value :: "char \<Rightarrow> nat option" where
  "hex_value c =
     (let b = byte_of c
      in if b \<ge> 48 \<and> b \<le> 57 then Some (unat (b - 48))
         else if b \<ge> 97 \<and> b \<le> 102 then Some (unat (b - 97 + 10))
         else if b \<ge> 65 \<and> b \<le> 70 then Some (unat (b - 65 + 10))
         else None)"

text \<open>
  The inner loop of \<open>parseIPv6\<close>: reads hex digits from the front of \<open>s\<close>; \<open>None\<close> is
  the failure on a fifth digit, otherwise the number of digits read and their value.
\<close>

fun hex_group :: "string \<Rightarrow> nat \<Rightarrow> nat \<Rightarrow> (nat \<times> nat) option" where
  "hex_group [] off acc = Some (off, acc)"
| "hex_group (c # s) off acc =
     (case hex_value c of
        None \<Rightarrow> Some (off, acc)
      | Some v \<Rightarrow>
          if off > 3 then None
          else if acc * 16 + v > 65535 then None
          else hex_group s (Suc off) (acc * 16 + v))"

function parseIPv6_loop ::
  "string \<Rightarrow> nat \<Rightarrow> 8 word list \<Rightarrow> nat option \<Rightarrow> (string \<times> nat \<times> 8 word list \<times> nat option) option" where
  "parseIPv6_loop s i ip ellipsis =
     (if \<not> i < 16 then Some (s, i, ip, ellipsis)
      else
        case hex_group s 0 0 of
          None \<Rightarrow> None
        | Some (off, acc) \<Rightarrow>
            if off = 0 then None
            else if off < length s \<and> s ! off = CHR ''.'' then
              (if ellipsis = None \<and> i \<noteq> 12 then None
               else if i + 4 > 16 then None
               else case parseIPv4Fields s of
                      None \<Rightarrow> None
                    | Some v4 \<Rightarrow> Some ([], i + 4, ip @ v4, ellipsis))
            else
              (let ip = ip @ [of_nat (acc div 256), of_nat acc];
                   i = i + 2;
                   s = drop off s
               in if s = [] then Some (s, i, ip, ellipsis)
                  else if hd s \<noteq> CHR '':'' then None
                  else if length s = 1 then None
                  else let s = tl s
                       in if hd s = CHR '':'' then
                            (if ellipsis \<noteq> None then None
                             else let s = tl s
                                  in if s = [] then Some (s, i, ip, Some i)
                                     else parseIPv6_loop s i ip (Some i))
                          else parseIPv6_loop s i ip ellipsis))"
  by pat_completeness auto
termination
  by (relation "measure (\<lambda>(s, i, ip, e). 16 - i)") auto

datatype netip_Addr = Addr4 "8 word list" | Addr6 "8 word list" string

definition parseIPv6 :: "string \<Rightarrow> netip_Addr option" where
  "parseIPv6 inp =
     (let (s, zone, bad) =
            (case IndexByte inp CHR ''%'' of
               None \<Rightarrow> (inp, [], False)
             | Some i \<Rightarrow> (take i inp, drop (i + 1) inp, drop (i + 1) inp = []))
      in if bad then None
         else
           let lead = (length s \<ge> 2 \<and> s ! 0 = CHR '':'' \<and> s ! 1 = CHR '':'');
               s = (if lead then drop 2 s else s);
               ellipsis = (if lead then Some 0 else None)
           in if lead \<and> s = [] then Some (Addr6 (replicate 16 0) zone)
              else
                case parseIPv6_loop s 0 [] ellipsis of
                  None \<Rightarrow> None
                | Some (s, i, ip, ellipsis) \<Rightarrow>
                    if s \<noteq> [] then None
                    else if i < 16 then
                      (case ellipsis of
                         None \<Rightarrow> None
                       | Some e \<Rightarrow> Some (Addr6 (take e ip @ replicate (16 - i) 0 @ drop e ip) zone))
                    else if ellipsis \<noteq> None then None
                    else Some (Addr6 ip zone))"

fun ParseAddr_scan :: "string \<Rightarrow> string \<Rightarrow> netip_Addr option" where
  "ParseAddr_scan s [] = None"
| "ParseAddr_scan s (c # r) =
     (if c = CHR ''.'' then map_option Addr4 (parseIPv4Fields s)
      else if c = CHR '':'' then parseIPv6 s
      else if c = CHR ''%'' then None
      else ParseAddr_scan s r)"

definition ParseAddr :: "string \<Rightarrow> netip_Addr option" where
  "ParseAddr s = ParseAddr_scan s s"

definition As16 :: "netip_Addr \<Rightarrow> 8 word list" where
  "As16 a = (case a of Addr4 b \<Rightarrow> replicate 10 0 @ [255, 255] @ b | Addr6 b z \<Rightarrow> b)"

definition Zone :: "netip_Addr \<Rightarrow> string" where
  "Zone a = (case a of Addr4 b \<Rightarrow> [] | Addr6 b z \<Rightarrow> z)"

text \<open>
  \<open>net.ParseIP\<close>: the empty slice \<open>[]\<close> is Go's \<open>nil\<close>; any other result is 16 bytes
  long, an IPv4 address in its IPv4-in-IPv6 form.
\<close>

definition ParseIP :: "string \<Rightarrow> IP" where
  "ParseIP s =
     (case ParseAddr s of
        None \<Rightarrow> []
      | Some a \<Rightarrow> if Zone a \<noteq> [] then [] else As16 a)"

subsection \<open>net.IP.String\<close>

definition isZeros :: "8 word list \<Rightarrow> bool" where
  "isZeros p = list_all (\<lambda>b. b = 0) p"

text \<open>\<open>To4\<close>: the four bytes of an IPv4 address, \<open>[]\<close> (Go's \<open>nil\<close>) when it is not one.\<close>

definition To4 :: "IP \<Rightarrow> IP" where
  "To4 ip =
     (if length ip = 4 then ip
      else if length ip = 16 \<and> isZeros (take 10 ip) \<and> ip ! 10 = 255 \<and> ip ! 11 = 255
        then drop 12 ip
      else [])"

definition string4 :: "8 word list \<Rightarrow> string" where
  "string4 b =
     formatDec (unat (b ! 0)) @ ''.'' @ formatDec (unat (b ! 1)) @ ''.'' @
     formatDec (unat (b ! 2)) @ ''.'' @ formatDec (unat (b ! 3))"

definition v6u16 :: "8 word list \<Rightarrow> nat \<Rightarrow> nat" where
  "v6u16 b i = unat (b ! (2 * i)) * 256 + unat (b ! (2 * i + 1))"

definition appendHex :: "nat \<Rightarrow> string" where
  "appendHex x =
     (if x \<ge> 4096 then [digit_char (x div 4096)] else []) @
     (if x \<ge> 256 then [digit_char (x div 256 mod 16)] else []) @
     (if x \<ge> 16 then [digit_char (x div 16 mod 16)] else []) @
     [digit_char (x mod 16)]"

text \<open>
  The first loop of \<open>appendTo16\<close>: the longest run of at least two zero groups, the
  earliest one among equals. \<open>(255, 255)\<close> is the initial "no run".
\<close>

function zero_run_end :: "8 word list \<Rightarrow> nat \<Rightarrow> nat" where
  "zero_run_end b j = (if j < 8 \<and> v6u16 b j = 0 then zero_run_end b (j + 1) else j)"
  by pat_completeness auto
termination
  by (relation "measure (\<lambda>(b, j). 8 - j)") auto

function zero_run_loop :: "8 word list \<Rightarrow> nat \<times> nat \<Rightarrow> nat \<Rightarrow> nat \<times> nat" where
  "zero_run_loop b z i =
     (if i < 8 then
        (let j = zero_run_end b i; l = j - i
         in zero_run_loop b (if l \<ge> 2 \<and> l > snd z - fst z then (i, j) else z) (i + 1))
      else z)"
  by pat_completeness auto
termination
  by (relation "measure (\<lambda>(b, z, i). 8 - i)") auto

definition zero_run :: "8 word list \<Rightarrow> nat \<times> nat" where
  "zero_run b = zero_run_loop b (255, 255) 0"

text \<open>
  The second loop. After the \<open>::\<close> of the run the index jumps to the run's end; a run
  that was found ends after its start, so \<open>max\<close> changes nothing there and shows that
  the loop ends.
\<close>

function appendTo16_loop :: "8 word list \<Rightarrow> nat \<times> nat \<Rightarrow> nat \<Rightarrow> string" where
  "appendTo16_loop b z i =
     (if \<not> i < 8 then []
      else if i = fst z then
        (if snd z \<ge> 8 then ''::''
         else ''::'' @ appendHex (v6u16 b (snd z)) @ appendTo16_loop b z (max (snd z) i + 1))
      else (if i > 0 then '':'' else []) @ appendHex (v6u16 b i) @ appendTo16_loop b z (i + 1))"
  by pat_completeness auto
termination
  by (relation "measure (\<lambda>(b, z, i). 8 - i)") auto


definition string16 :: "8 word list \<Rightarrow> string" where
  "string16 b = appendTo16_loop b (zero_run b) 0"

definition hexString :: "8 word list \<Rightarrow> string" where
  "hexString b = concat (map (\<lambda>tn. [digit_char (unat tn div 16), digit_char (unat tn mod 16)]) b)"

definition IP_String :: "IP \<Rightarrow> string" where
  "IP_String ip =
     (if length ip = 0 then ''<nil>''
      else if length ip \<noteq> 4 \<and> length ip \<noteq> 16 then ''?'' @ hexString ip
      else if length (To4 ip) = 4 then string4 (To4 ip)
      else string16 ip)"

section \<open>Record types (record_type.go)\<close>

text \<open>\<open>type RecordType uint16\<close>, its values aligned with the protocol's type codes.\<close>

type_synonym RecordType = "16 word"

definition RecordTypeA :: RecordType where "RecordTypeA = 1"
definition RecordTypeAAAA :: RecordType where "RecordTypeAAAA = 28"
definition RecordTypeCNAME :: RecordType where "RecordTypeCNAME = 5"
definition RecordTypeNS :: RecordType where "RecordTypeNS = 2"
definition RecordTypePTR :: RecordType where "RecordTypePTR = 12"

text \<open>
  Modelled from the spec: \<open>RecordTypeNAPTR\<close>, which the tests and the answer decoder
  use but \<open>record_type.go\<close> does not declare; the spec lists \<open>NAPTR\<close> among the
  supported names, and its value is the protocol's code for that type.
\<close>

definition RecordTypeNAPTR :: RecordType where "RecordTypeNAPTR = 35"

definition supported_names :: "string list" where
  "supported_names = [''A'', ''AAAA'', ''CNAME'', ''NS'', ''PTR'', ''NAPTR'']"

text \<open>
  Modelled from the spec: \<open>RecordTypeString\<close>, the generated parser
  (\<open>record_type_gen.go\<close> is not part of the sources): a case-sensitive lookup by
  canonical name that fails when the name is not in the supported set. \<open>None\<close> is the
  generated function's error.
\<close>

definition RecordTypeString :: "string \<Rightarrow> RecordType option" where
  "RecordTypeString s =
     (if s = ''A'' then Some RecordTypeA
      else if s = ''AAAA'' then Some RecordTypeAAAA
      else if s = ''CNAME'' then Some RecordTypeCNAME
      else if s = ''NS'' then Some RecordTypeNS
      else if s = ''PTR'' then Some RecordTypePTR
      else if s = ''NAPTR'' then Some RecordTypeNAPTR
      else None)"

text \<open>
  Modelled from the spec: \<open>RecordType.String\<close>, the generated name of a record type
  (\<open>record_type_gen.go\<close> is not part of the sources): the inverse of the parser on the
  supported set, and the generator's \<open>RecordType(n)\<close> elsewhere.
\<close>

definition RecordType_String :: "RecordType \<Rightarrow> string" where
  "RecordType_String t =
     (if t = RecordTypeA then ''A''
      else if t = RecordTypeAAAA then ''AAAA''
      else if t = RecordTypeCNAME then ''CNAME''
      else if t = RecordTypeNS then ''NS''
      else if t = RecordTypePTR then ''PTR''
      else if t = RecordTypeNAPTR then ''NAPTR''
      else ''RecordType('' @ Itoa (uint t) @ '')'')"

section \<open>Nameservers and the address parsers\<close>

record Nameserver =
  IP :: IP
  Port :: "16 word"

text \<open>\<open>Nameserver.Addr\<close>: \<open>n.IP.String() + ":" + strconv.Itoa(int(n.Port))\<close>.\<close>

definition Addr :: "Nameserver \<Rightarrow> string" where
  "Addr n = IP_String (IP n) @ '':'' @ Itoa (uint (Port n))"

definition NewNameserver :: "IP \<Rightarrow> 16 word \<Rightarrow> Nameserver" where
  "NewNameserver ip port = \<lparr>IP = ip, Port = port\<rparr>"

text \<open>One constructor for each error the parsers build, named after its message.\<close>

datatype ParseError =
    InvalidAddressFormat AddrError
  | InvalidIPv6AddressFormat AddrError
  | InvalidIPAddress string
  | PortNotANumber NumError
  | PortOutOfRange int
  | InvalidNameserverAddress AddrError
  | InvalidPort NumError

text \<open>
  \<open>ParseNameserverAddr\<close>, first half: the host and port substrings. The port is empty
  when the address has none; \<open>strings.Contains(addr, "]")\<close> looks for one byte.
\<close>

definition ParseNameserverAddr_split :: "string \<Rightarrow> ParseError + (string \<times> string)" where
  "ParseNameserverAddr_split addr =
     (if \<not> ContainsRune addr CHR '':'' then Inr (addr, [])
      else
        case SplitHostPort addr of
          Inr (hostStr, portStr) \<Rightarrow> Inr (hostStr, portStr)
        | Inl err \<Rightarrow>
            if \<not> ContainsRune addr CHR '']'' then Inl (InvalidAddressFormat err)
            else if hd addr = CHR ''['' \<and> last addr = CHR '']''
              then Inr (take (length addr - 2) (drop 1 addr), [])
            else Inl (InvalidIPv6AddressFormat err))"

text \<open>
  The second half, shared with \<open>parseNameserverAddr\<close>: the host must parse as an IP,
  an empty port is 53, the port must be a number in \<open>[0, 65535]\<close>.
\<close>

definition parseIPAndPort :: "string \<Rightarrow> string \<Rightarrow> ParseError + Nameserver" where
  "parseIPAndPort hostStr portStr =
     (let ip = ParseIP hostStr
      in if ip = [] then Inl (InvalidIPAddress hostStr)
         else
           let portStr = (if portStr = [] then ''53'' else portStr)
           in case Atoi portStr of
                Inl err \<Rightarrow> Inl (PortNotANumber err)
              | Inr port \<Rightarrow>
                  if port < 0 \<or> port > 65535 then Inl (PortOutOfRange port)
                  else Inr \<lparr>IP = ip, Port = word_of_int port\<rparr>)"

definition ParseNameserverAddr :: "string \<Rightarrow> ParseError + Nameserver" where
  "ParseNameserverAddr addr =
     (case ParseNameserverAddr_split addr of
        Inl e \<Rightarrow> Inl e
      | Inr (hostStr, portStr) \<Rightarrow> parseIPAndPort hostStr portStr)"

text \<open>The later layout of the same parser: \<open>parseHostAndPort\<close> and \<open>parseNameserverAddr\<close>.\<close>

definition parseHostAndPort :: "string \<Rightarrow> ParseError + (string \<times> string)" where
  "parseHostAndPort addr =
     (if ContainsRune addr CHR '':'' then
        (case SplitHostPort addr of
           Inr (host, port) \<Rightarrow> Inr (host, port)
         | Inl err \<Rightarrow>
             if ContainsRune addr CHR '']'' \<and> hd addr = CHR ''['' \<and> last addr = CHR '']''
               then Inr (take (length addr - 2) (drop 1 addr), ''53'')
             else Inl (InvalidAddressFormat err))
      else Inr (addr, ''53''))"

definition parseNameserverAddr :: "string \<Rightarrow> ParseError + Nameserver" where
  "parseNameserverAddr addr =
     (case parseHostAndPort addr of
        Inl e \<Rightarrow> Inl e
      | Inr (hostStr, portStr) \<Rightarrow> parseIPAndPort hostStr portStr)"

text \<open>
  \<open>resolveOptions.ParseNameserver\<close> (module.go), on the option's nameserver string:
  the port is converted with \<open>uint16(port)\<close> and the host with \<open>net.ParseIP\<close>, neither
  result checked.
\<close>

definition ParseNameserver :: "string \<Rightarrow> ParseError + Nameserver" where
  "ParseNameserver ns =
     (case (if ContainsRune ns CHR '':'' then
              (case SplitHostPort ns of
                 Inl err \<Rightarrow> Inl (InvalidNameserverAddress err)
               | Inr (hostStr, portStr) \<Rightarrow> Inr (hostStr, portStr))
            else Inr (ns, ''53'')) of
        Inl e \<Rightarrow> Inl e
      | Inr (hostStr, portStr) \<Rightarrow>
          (case Atoi portStr of
             Inl err \<Rightarrow> Inl (InvalidPort err)
           | Inr port \<Rightarrow> Inr (NewNameserver (ParseIP hostStr) (word_of_int port))))"

section \<open>The resolution client\<close>

text \<open>
  The outbound message as \<open>SetQuestion\<close> fills it: one question of class INET with
  recursion desired (the random message id is left out).
\<close>

record Question =
  Name :: string
  Qtype :: "16 word"
  Qclass :: "16 word"

record Msg =
  RecursionDesired :: bool
  Questions :: "Question list"

definition ClassINET :: "16 word" where "ClassINET = 1"

definition SetQuestion :: "string \<Rightarrow> 16 word \<Rightarrow> Msg" where
  "SetQuestion z t = \<lparr>RecursionDesired = True, Questions = [\<lparr>Name = z, Qtype = t, Qclass = ClassINET\<rparr>]\<rparr>"

record NAPTR =
  Order :: "16 word"
  Preference :: "16 word"
  Flags :: string
  Service :: string
  Regexp :: string
  Replacement :: string

text \<open>
  The resource records of an answer section, by their Go type; \<open>RR_Other\<close> carries the
  type's name (what \<open>%T\<close> prints) of any record the library knows beyond these.
\<close>

datatype RR =
    RR_A IP
  | RR_AAAA IP
  | RR_NAPTR NAPTR
  | RR_CNAME string
  | RR_NS string
  | RR_PTR string
  | RR_Other string

fun typeName :: "RR \<Rightarrow> string" where
  "typeName (RR_A _) = ''*dns.A''"
| "typeName (RR_AAAA _) = ''*dns.AAAA''"
| "typeName (RR_NAPTR _) = ''*dns.NAPTR''"
| "typeName (RR_CNAME _) = ''*dns.CNAME''"
| "typeName (RR_NS _) = ''*dns.NS''"
| "typeName (RR_PTR _) = ''*dns.PTR''"
| "typeName (RR_Other n) = n"

record Response =
  Rcode :: int
  Answer :: "RR list"

definition RcodeSuccess :: int where "RcodeSuccess = 0"
definition RcodeNameError :: int where "RcodeNameError = 3"

text \<open>
  Modelled from the spec: \<open>newDNSError\<close> and the \<open>DNSError\<close> it builds (their file is
  not part of the sources): the error carries the numeric status and a classification
  in which the non-existing domain is told apart from every other failure.
\<close>

datatype DNSErrorName = NonExistingDomain | OtherFailure

record DNSError =
  Code :: int
  ErrName :: DNSErrorName
  Message :: string

definition newDNSError :: "int \<Rightarrow> string \<Rightarrow> DNSError" where
  "newDNSError rcode msg =
     \<lparr>Code = rcode,
      ErrName = (if rcode = RcodeNameError then NonExistingDomain else OtherFailure),
      Message = msg\<rparr>"

text \<open>
  The errors of \<open>Resolve\<close>; \<open>'e\<close> is the transport's own error. \<open>InvalidRecordType\<close> and
  \<open>UnhandledAnswerType\<close> both wrap the sentinel \<open>ErrUnsupportedRecordType\<close> in the
  current client and differ by their message; \<open>QueryFailed\<close> wraps the transport's
  error, \<open>TransportFailure\<close> is the earlier client's unwrapped one.
\<close>

datatype 'e ResolveError =
    InvalidRecordType string
  | QueryFailed 'e
  | TransportFailure 'e
  | DNSFailure DNSError
  | UnhandledAnswerType string

text \<open>\<open>fmtNAPTRAnswer\<close>.\<close>

definition fmtNAPTRAnswer :: "NAPTR \<Rightarrow> string" where
  "fmtNAPTRAnswer answer =
     Itoa (uint (Order answer)) @ '' '' @
     Itoa (uint (Preference answer)) @ '' '' @
     [CHR 0x22] @ Flags answer @ [CHR 0x22] @ '' '' @
     [CHR 0x22] @ Service answer @ [CHR 0x22] @ '' '' @
     [CHR 0x22] @ Regexp answer @ [CHR 0x22] @ '' '' @
     Replacement answer"

text \<open>The decoding loop of the current \<open>Resolve\<close>, \<open>ips\<close> the strings appended so far.\<close>

fun decodeAnswers :: "RR list \<Rightarrow> string list \<Rightarrow> 'e ResolveError + string list" where
  "decodeAnswers [] ips = Inr ips"
| "decodeAnswers (a # rest) ips =
     (case a of
        RR_A ip \<Rightarrow> decodeAnswers rest (ips @ [IP_String ip])
      | RR_AAAA ip \<Rightarrow> decodeAnswers rest (ips @ [IP_String ip])
      | RR_NAPTR t \<Rightarrow> decodeAnswers rest (ips @ [fmtNAPTRAnswer t])
      | _ \<Rightarrow> Inl (UnhandledAnswerType (typeName a)))"

text \<open>
  \<open>Client.Resolve\<close>, current version. \<open>exchange\<close> is the transport
  (\<open>ExchangeContext\<close>): it receives the message and the dial target and returns the
  response or its own error.
\<close>

definition Resolve ::
  "(Msg \<Rightarrow> string \<Rightarrow> 'e + Response) \<Rightarrow> string \<Rightarrow> string \<Rightarrow> Nameserver
     \<Rightarrow> 'e ResolveError + string list" where
  "Resolve exchange query recordType nameserver =
     (case RecordTypeString recordType of
        None \<Rightarrow> Inl (InvalidRecordType recordType)
      | Some concreteType \<Rightarrow>
          (case exchange (SetQuestion (query @ ''.'') concreteType) (Addr nameserver) of
             Inl err \<Rightarrow> Inl (QueryFailed err)
           | Inr response \<Rightarrow>
               if Rcode response \<noteq> RcodeSuccess
                 then Inl (DNSFailure (newDNSError (Rcode response) ''DNS query failed''))
               else decodeAnswers (Answer response) []))"

text \<open>
  \<open>Client.Resolve\<close>, earlier version: the question type comes from a \<open>switch\<close> with
  cases for \<open>A\<close> and \<open>AAAA\<close> only (\<open>concreteType\<close> keeps its zero value otherwise), the
  status of the response is not inspected, and the decoder knows \<open>CNAME\<close>, \<open>NS\<close> and
  \<open>PTR\<close> but not \<open>NAPTR\<close>.
\<close>

definition concreteType_001 :: "RecordType \<Rightarrow> 16 word" where
  "concreteType_001 rt =
     (if rt = RecordTypeA then 1 else if rt = RecordTypeAAAA then 28 else 0)"

fun decodeAnswers_001 :: "RR list \<Rightarrow> string list \<Rightarrow> 'e ResolveError + string list" where
  "decodeAnswers_001 [] ips = Inr ips"
| "decodeAnswers_001 (a # rest) ips =
     (case a of
        RR_A ip \<Rightarrow> decodeAnswers_001 rest (ips @ [IP_String ip])
      | RR_AAAA ip \<Rightarrow> decodeAnswers_001 rest (ips @ [IP_String ip])
      | RR_CNAME target \<Rightarrow> decodeAnswers_001 rest (ips @ [target])
      | RR_NS ns \<Rightarrow> decodeAnswers_001 rest (ips @ [ns])
      | RR_PTR ptr \<Rightarrow> decodeAnswers_001 rest (ips @ [ptr])
      | _ \<Rightarrow> Inl (UnhandledAnswerType (typeName a)))"

definition Resolve_001 ::
  "(Msg \<Rightarrow> string \<Rightarrow> 'e + Response) \<Rightarrow> string \<Rightarrow> string \<Rightarrow> Nameserver
     \<Rightarrow> 'e ResolveError + string list" where
  "Resolve_001 exchange query recordType nameserver =
     (case RecordTypeString recordType of
        None \<Rightarrow> Inl (InvalidRecordType recordType)
      | Some rt \<Rightarrow>
          (case exchange (SetQuestion (query @ ''.'') (concreteType_001 rt)) (Addr nameserver) of
             Inl err \<Rightarrow> Inl (TransportFailure err)
           | Inr response \<Rightarrow> decodeAnswers_001 (Answer response) []))"

section \<open>The documented behaviour, stated for comparison with the code\<close>

text \<open>
  The NAPTR presentation format as the specification words it: six fields joined by
  single spaces, the three text fields each between double quotes.
\<close>

definition quoted :: "string \<Rightarrow> string" where
  "quoted s = [CHR 0x22] @ s @ [CHR 0x22]"

fun join_spaces :: "string list \<Rightarrow> string" where
  "join_spaces [] = []"
| "join_spaces [x] = x"
| "join_spaces (x # y # r) = x @ '' '' @ join_spaces (y # r)"

text \<open>The NAPTR record the tests configure for \<open>9.8.7.6.5.4.3.2.1.0.e164.arpa.\<close>\<close>

definition primaryTestNAPTR :: NAPTR where
  "primaryTestNAPTR =
     \<lparr>Order = 100, Preference = 10, Flags = ''U'', Service = ''E2U+sip'',
      Regexp = ''!^.*$!sip:customer-service@example.com!'', Replacement = ''.''\<rparr>"

(*PROPERTIES*)
section \<open>Properties\<close>

subsection \<open>NAPTR answers\<close>

text \<open>
  C5. For every NAPTR answer record the decoded string is the order and the preference
  in decimal, then the flags, service and regexp fields each in double quotes (also
  when empty), then the replacement, joined by single spaces in that order. The record
  of the tests (order 100, preference 10, flags U, service E2U+sip, the sip regexp,
  replacement a single dot) decodes to the documented literal, and a record whose text
  fields are all empty still shows three pairs of quotes.
\<close>

theorem fmtNAPTRAnswer_format:
  "fmtNAPTRAnswer a =
     join_spaces [Itoa (uint (Order a)), Itoa (uint (Preference a)),
                  quoted (Flags a), quoted (Service a), quoted (Regexp a), Replacement a]
   \<and> fmtNAPTRAnswer primaryTestNAPTR =
       ''100 10 '' @ quoted ''U'' @ '' '' @ quoted ''E2U+sip'' @ '' '' @
       quoted ''!^.*$!sip:customer-service@example.com!'' @ '' .''
   \<and> fmtNAPTRAnswer \<lparr>Order = 0, Preference = 65535, Flags = [], Service = [],
                       Regexp = [], Replacement = []\<rparr> =
       ''0 65535 '' @ [CHR 0x22, CHR 0x22] @ '' '' @ [CHR 0x22, CHR 0x22] @ '' '' @
       [CHR 0x22, CHR 0x22] @ '' ''"
  by (simp add: fmtNAPTRAnswer_def quoted_def primaryTestNAPTR_def Itoa_def digit_char_def)

end
